theory Spec2Isabelle
  imports Complex_Main "HOL-Library.Multiset" "HOL-Library.Log_Nat"
begin

section \<open>Exceptions as values\<close>

text \<open>
  The Python source raises exceptions; the model returns them.  A computation that may
  raise has type \<open>error + 'a\<close>, with \<open>Inl\<close> the exception.  \<open>and_then\<close> is
  sequencing of two statements: the second one runs only when the first did not raise.
  \<open>for_each\<close> is a list comprehension whose body may raise: the first exception, in
  iteration order, leaves the comprehension.
\<close>

datatype error = IndexError | ValueError | TypeError | KeyError | LibraryError

definition and_then :: "error + 'a \<Rightarrow> ('a \<Rightarrow> error + 'b) \<Rightarrow> error + 'b" where
  "and_then m f = (case m of Inl e \<Rightarrow> Inl e | Inr v \<Rightarrow> f v)"

fun for_each :: "('a \<Rightarrow> error + 'b) \<Rightarrow> 'a list \<Rightarrow> error + 'b list" where
  "for_each f [] = Inr []"
| "for_each f (a # as) = and_then (f a) (\<lambda>b. and_then (for_each f as) (\<lambda>bs. Inr (b # bs)))"

section \<open>Arrays\<close>

text \<open>
  A two-dimensional numpy array is a list of rows; \<open>ncols\<close> is \<open>shape[1]\<close>, and an array
  without rows is taken to have no columns.  The functions that only select entries are
  polymorphic in the type of the entries.  The default kernel matrix is built from exact
  reals: its two sums, \<open>0.9 + 0.1\<close> and \<open>0 + 0.1\<close>, are exact in IEEE arithmetic too.
\<close>

type_synonym matrix = "real list list"

definition ncols :: "'a list list \<Rightarrow> nat" where
  "ncols m = (case m of [] \<Rightarrow> 0 | r # _ \<Rightarrow> length r)"

text \<open>
  numpy indexing along an axis of length \<open>n\<close>: an index \<open>i\<close> with \<open>-n \<le> i < n\<close> is
  accepted, a negative one counting from the end; any other index raises IndexError.
\<close>

definition wrapped :: "nat \<Rightarrow> int \<Rightarrow> nat" where
  "wrapped n i = nat (if i < 0 then i + int n else i)"

definition axis_index :: "nat \<Rightarrow> int \<Rightarrow> error + nat" where
  "axis_index n i =
     (if - int n \<le> i \<and> i < int n then Inr (wrapped n i) else Inl IndexError)"

text \<open>\<open>np.eye(n)\<close>, \<open>np.ones((n, m))\<close>, a scalar times an array, and the sum of two arrays.\<close>

definition eye :: "nat \<Rightarrow> matrix" where
  "eye n = map (\<lambda>i. map (\<lambda>j. if i = j then 1 else 0) [0..<n]) [0..<n]"

definition ones :: "nat \<Rightarrow> nat \<Rightarrow> matrix" where
  "ones n m = replicate n (replicate m 1)"

definition scale :: "real \<Rightarrow> matrix \<Rightarrow> matrix" where
  "scale c m = map (map (\<lambda>v. c * v)) m"

definition add_arrays :: "matrix \<Rightarrow> matrix \<Rightarrow> matrix" where
  "add_arrays a b = map2 (\<lambda>r s. map2 (\<lambda>v w. v + w) r s) a b"

section \<open>DiscreteSequenceKernel\<close>

text \<open>
  The kernel object holds one attribute, \<open>kernel_matrix\<close>; every method below takes it as
  an argument.  A sequence is a one-dimensional array of integer tokens.

  \<open>evaluate_kernel(x, y)\<close> is \<open>kernel_matrix[x][:, y].sum()\<close>.  \<open>take_entries\<close> is the
  array \<open>kernel_matrix[x][:, y]\<close>: the rows selected by the tokens of \<open>x\<close>, of those the
  columns selected by the tokens of \<open>y\<close>.  \<open>array_sum\<close> is numpy's \<open>ndarray.sum\<close>, an
  argument of the model: it adds IEEE doubles in an order the library chooses, and the
  rounded result depends on that order.
\<close>

definition take_entries :: "'a list list \<Rightarrow> int list \<Rightarrow> int list \<Rightarrow> error + 'a list list" where
  "take_entries kernel_matrix x y =
     and_then (for_each (axis_index (length kernel_matrix)) x) (\<lambda>rs.
     and_then (for_each (axis_index (ncols kernel_matrix)) y) (\<lambda>cs.
     Inr (map (\<lambda>r. map (\<lambda>c. kernel_matrix ! r ! c) cs) rs)))"

definition evaluate_kernel ::
  "('a list list \<Rightarrow> 'a) \<Rightarrow> 'a list list \<Rightarrow> int list \<Rightarrow> int list \<Rightarrow> error + 'a" where
  "evaluate_kernel array_sum kernel_matrix x y =
     and_then (take_entries kernel_matrix x y) (\<lambda>entries. Inr (array_sum entries))"


definition diag ::
  "('a list list \<Rightarrow> 'a) \<Rightarrow> 'a list list \<Rightarrow> int list list \<Rightarrow> error + 'a list" where
  "diag array_sum kernel_matrix X =
     for_each (\<lambda>x. evaluate_kernel array_sum kernel_matrix x x) X"

definition is_stationary :: "'a list list \<Rightarrow> bool" where
  "is_stationary kernel_matrix = True"

text \<open>The default similarity matrix of \<open>fit\<close>: \<open>0.9 * np.eye(n) + 0.1 * np.ones((n, n))\<close>.\<close>

definition default_kernel :: "nat \<Rightarrow> matrix" where
  "default_kernel n = add_arrays (scale 0.9 (eye n)) (scale 0.1 (ones n n))"

text \<open>
  A square matrix that equals its transpose, and the transpose of an array of \<open>m\<close> rows
  and \<open>n\<close> columns.
\<close>

definition symmetric_matrix :: "nat \<Rightarrow> 'a list list \<Rightarrow> bool" where
  "symmetric_matrix n m \<longleftrightarrow>
     length m = n \<and> list_all (\<lambda>r. length r = n) m \<and>
     list_all (\<lambda>i. list_all (\<lambda>j. m ! i ! j = m ! j ! i) [0..<n]) [0..<n]"



section \<open>IEEE doubles\<close>

text \<open>
  A finite double is a pair \<open>(m, e)\<close> of integers standing for \<open>m * 2 ^ e\<close>, kept with \<open>m\<close>
  odd (or as \<open>(0, 0)\<close>), so that equal doubles are equal pairs.  \<open>fl_add\<close> is the addition
  of IEEE 754 binary64: the exact sum rounded to 53 significant bits, ties to the even
  neighbour.  Overflow and subnormal results are outside the model.
\<close>

type_synonym double = "int \<times> int"

function normal :: "int \<Rightarrow> int \<Rightarrow> double" where
  "normal m e =
     (if m = 0 then (0, 0) else if even m then normal (m div 2) (e + 1) else (m, e))"
  by pat_completeness auto
termination
  by (relation "measure (\<lambda>(m, e). nat \<bar>m\<bar>)") (auto elim!: evenE)

definition round_even :: "int \<Rightarrow> nat \<Rightarrow> int" where
  "round_even n s =
     (let q = n div 2 ^ s; r = n mod 2 ^ s
      in if 2 * r < 2 ^ s then q
         else if 2 ^ s < 2 * r then q + 1
         else if even q then q else q + 1)"

definition round53 :: "int \<Rightarrow> int \<Rightarrow> double" where
  "round53 m e =
     (let s = bitlen \<bar>m\<bar> - 53
      in if s \<le> 0 then normal m e
         else normal (sgn m * round_even \<bar>m\<bar> (nat s)) (e + s))"

fun fl_add :: "double \<Rightarrow> double \<Rightarrow> double" where
  "fl_add (m1, e1) (m2, e2) =
     (let e = min e1 e2
      in round53 (m1 * 2 ^ nat (e1 - e) + m2 * 2 ^ nat (e2 - e)) e)"

definition double_value :: "double \<Rightarrow> real" where
  "double_value d =
     (if 0 \<le> snd d then of_int (fst d) * 2 ^ nat (snd d)
      else of_int (fst d) / 2 ^ nat (- snd d))"

text \<open>The doubles \<open>0.0\<close> and \<open>1.0\<close>, and the double nearest to \<open>0.1\<close>.\<close>

definition double_zero :: double where
  "double_zero = (0, 0)"

definition double_one :: double where
  "double_one = (1, 0)"

definition double_tenth :: double where
  "double_tenth = (3602879701896397, - 55)"

text \<open>
  One order in which the entries of an array can be added: row after row, each from left
  to right.
\<close>

definition double_sum :: "double list list \<Rightarrow> double" where
  "double_sum a = (case concat a of [] \<Rightarrow> double_zero | v # vs \<Rightarrow> foldl fl_add v vs)"

text \<open>
  The default kernel matrix as numpy holds it: \<open>1.0\<close> on the diagonal and the double nearest
  to \<open>0.1\<close> off it.
\<close>

definition default_kernel_doubles :: "nat \<Rightarrow> double list list" where
  "default_kernel_doubles n =
     map (\<lambda>i. map (\<lambda>j. if i = j then double_one else double_tenth) [0..<n]) [0..<n]"

section \<open>Design and score tensors\<close>

text \<open>
  A tensor of the dataset has a batch axis and at least one more axis: it is a list of
  rows, each row a list of (possibly nested) arrays.  \<open>floating\<close> is what
  \<open>np.issubdtype(t.dtype, np.floating)\<close> returns for it; the entries of an integer
  tensor are kept as numbers too.
\<close>

datatype arr = Scalar real | Nested "arr list"

fun ravel :: "arr \<Rightarrow> real list" where
  "ravel (Scalar v) = [v]"
| "ravel (Nested as) = concat (map ravel as)"

definition ravel_row :: "arr list \<Rightarrow> real list" where
  "ravel_row r = concat (map ravel r)"

record tensor =
  floating :: bool
  rows :: "arr list list"

definition shape0 :: "tensor \<Rightarrow> nat" where
  "shape0 t = length (rows t)"

text \<open>\<open>t[indices]\<close> for an array of row indices: an index outside the batch axis raises.\<close>

definition take_rows :: "tensor \<Rightarrow> nat list \<Rightarrow> error + tensor" where
  "take_rows t indices =
     and_then (for_each (\<lambda>i. axis_index (shape0 t) (int i)) indices) (\<lambda>ks.
     Inr (t\<lparr>rows := map (\<lambda>k. rows t ! k) ks\<rparr>))"

text \<open>
  \<open>x.reshape((x.shape[0], np.prod(x.shape[1:])))\<close> flattens every row;
  \<open>y.reshape((y.shape[0],))\<close> needs exactly one entry per row and raises ValueError
  otherwise.
\<close>

definition reshape_x :: "tensor \<Rightarrow> tensor" where
  "reshape_x t = t\<lparr>rows := map (\<lambda>r. map Scalar (ravel_row r)) (rows t)\<rparr>"

definition reshape_y :: "tensor \<Rightarrow> error + real list" where
  "reshape_y t =
     (if list_all (\<lambda>r. length (ravel_row r) = 1) (rows t)
      then Inr (map (\<lambda>r. hd (ravel_row r)) (rows t))
      else Inl ValueError)"

section \<open>The dataset and the regression library, as far as fit uses them\<close>

text \<open>
  The dataset object is external to the file.  \<open>fit\<close> reads whether it is a
  \<open>DiscreteDataset\<close>, its \<open>num_classes\<close>, its properties \<open>x\<close> and \<open>y\<close> (whose value
  depends on the flag \<open>_disable_transform\<close>, the argument of \<open>data_x\<close> and \<open>data_y\<close>),
  and calls \<open>to_integers\<close>, \<open>normalize_x\<close> and \<open>normalize_y\<close>, each of which may raise.
  The only attribute \<open>fit\<close> writes is \<open>_disable_transform\<close>.
\<close>

record dataset =
  is_discrete :: bool
  num_classes :: nat
  disable_transform :: bool
  data_x :: "bool \<Rightarrow> tensor"
  data_y :: "bool \<Rightarrow> tensor"
  to_integers :: "tensor \<Rightarrow> error + tensor"
  normalize_x :: "tensor \<Rightarrow> error + tensor"
  normalize_y :: "tensor \<Rightarrow> error + tensor"

text \<open>
  What can be passed or built as a kernel: a numpy array, the library's RBF kernel with
  its length scale and bounds, a \<open>DiscreteSequenceKernel\<close> around whatever it was given,
  or some other kernel object of the library.
\<close>

datatype kernel_obj =
    Array matrix
  | RBF real "real \<times> real"
  | DiscreteSequenceKernel kernel_obj
  | OtherKernel nat

text \<open>\<open>GaussianProcessRegressor(kernel=kernel, **kwargs)\<close>, before it is fitted.\<close>

record 'h regressor =
  kernel :: kernel_obj
  kwargs :: 'h

text \<open>Lines 214 to 224 of the source: the kernel the regressor is built with.\<close>

definition select_kernel :: "dataset \<Rightarrow> kernel_obj option \<Rightarrow> kernel_obj" where
  "select_kernel dataset kernel_arg =
     (if is_discrete dataset then
        DiscreteSequenceKernel
          (case kernel_arg of
             None \<Rightarrow> Array (default_kernel (num_classes dataset))
           | Some k \<Rightarrow> k)
      else
        (case kernel_arg of
           None \<Rightarrow> RBF 1 (1 / 100000, 100000)
         | Some k \<Rightarrow> k))"

text \<open>
  \<open>np.random.choice(a, replace=False, size=n)\<close> for an integer \<open>a\<close>.  The generator is
  an argument: \<open>permutation a\<close> is the shuffled \<open>range(a)\<close> it draws, of which numpy keeps
  the first \<open>n\<close> entries.  numpy raises ValueError for an empty population unless no
  sample is taken, for a sample larger than the population, and for a negative size.
\<close>

definition random_choice :: "(nat \<Rightarrow> nat list) \<Rightarrow> nat \<Rightarrow> int \<Rightarrow> error + nat list" where
  "random_choice permutation a n =
     (if a = 0 \<and> n \<noteq> 0 then Inl ValueError
      else if int a < n then Inl ValueError
      else if n < 0 then Inl ValueError
      else Inr (take (nat n) (permutation a)))"

text \<open>Lines 244 to 249: conversion to class indices, then input normalisation.\<close>

definition prepare_x :: "dataset \<Rightarrow> tensor \<Rightarrow> error + tensor" where
  "prepare_x dataset x =
     and_then (if is_discrete dataset \<and> floating x then to_integers dataset x else Inr x) (\<lambda>x.
     if floating x then normalize_x dataset x else Inr x)"

text \<open>
  Lines 232 to 255, up to the call of \<open>model.fit\<close>: the two arrays the regressor is
  fitted on.  Python evaluates \<open>x.reshape\<close> before \<open>y.reshape\<close>.
\<close>

definition fit_inputs ::
  "(nat \<Rightarrow> nat list) \<Rightarrow> dataset \<Rightarrow> int \<Rightarrow> error + tensor \<times> real list" where
  "fit_inputs permutation dataset max_samples =
     (let x = data_x dataset (disable_transform dataset);
          y = data_y dataset (disable_transform dataset)
      in
      and_then (random_choice permutation (shape0 y) (min (int (shape0 y)) max_samples)) (\<lambda>indices.
      and_then (take_rows x indices) (\<lambda>x.
      and_then (take_rows y indices) (\<lambda>y.
      and_then (prepare_x dataset x) (\<lambda>x.
      and_then (normalize_y dataset y) (\<lambda>y.
      and_then (reshape_y y) (\<lambda>yr.
      Inr (reshape_x x, yr))))))))"

text \<open>
  \<open>fit(dataset, kernel=None, max_samples=1000, **kwargs)\<close>.  \<open>model_fit\<close> is the
  regressor's own \<open>fit\<close> method, which returns the fitted model or raises; building the
  regressor is taken not to raise.  The result is what \<open>fit\<close> returns or raises, paired
  with the dataset as the call leaves it: the flag is set before the data is read, and
  the assignment of line 258 runs only when no statement before it raised.
\<close>

definition default_max_samples :: int where
  "default_max_samples = 1000"

definition fit ::
  "(nat \<Rightarrow> nat list) \<Rightarrow> ('h regressor \<Rightarrow> tensor \<Rightarrow> real list \<Rightarrow> error + 'm) \<Rightarrow>
   dataset \<Rightarrow> kernel_obj option \<Rightarrow> int \<Rightarrow> 'h \<Rightarrow> (error + 'm) \<times> dataset" where
  "fit permutation model_fit dataset kernel_arg max_samples kw =
     (let model = \<lparr>kernel = select_kernel dataset kernel_arg, kwargs = kw\<rparr>;
          dataset = dataset\<lparr>disable_transform := True\<rparr>
      in
      case and_then (fit_inputs permutation dataset max_samples)
                    (\<lambda>(x, y). model_fit model x y) of
        Inl e \<Rightarrow> (Inl e, dataset)
      | Inr fitted \<Rightarrow> (Inr fitted, dataset\<lparr>disable_transform := False\<rparr>))"

section \<open>GaussianProcessOracle: prediction and persistence\<close>

text \<open>
  \<open>protected_score(x)\<close> is \<open>self.model.predict(x)[:, np.newaxis]\<close>; \<open>predict\<close> is the
  fitted model's method, returning a one-dimensional array or raising.
\<close>

definition protected_score ::
  "('m \<Rightarrow> 'd list \<Rightarrow> error + real list) \<Rightarrow> 'm \<Rightarrow> 'd list \<Rightarrow> error + real list list" where
  "protected_score predict model x = and_then (predict model x) (\<lambda>p. Inr (map (\<lambda>v. [v]) p))"

text \<open>
  A zip archive maps entry names to their bytes.  \<open>pkl_dump\<close> and \<open>pkl_load\<close> are
  pickle's, arguments of the model.  \<open>save_model_to_zip\<close> returns \<open>None\<close>; the model
  returns the archive as the call leaves it, the entry written last being the one a later
  read by name finds.  Opening a missing entry for reading raises KeyError.
\<close>

definition save_model_to_zip ::
  "('m \<Rightarrow> 'b) \<Rightarrow> 'm \<Rightarrow> (string \<rightharpoonup> 'b) \<Rightarrow> (string \<rightharpoonup> 'b)" where
  "save_model_to_zip pkl_dump model zip_archive =
     zip_archive(''gaussian_process.pkl'' \<mapsto> pkl_dump model)"

definition load_model_from_zip ::
  "('b \<Rightarrow> error + 'm) \<Rightarrow> (string \<rightharpoonup> 'b) \<Rightarrow> error + 'm" where
  "load_model_from_zip pkl_load zip_archive =
     (case zip_archive ''gaussian_process.pkl'' of
        None \<Rightarrow> Inl KeyError
      | Some file \<Rightarrow> pkl_load file)"

section \<open>GaussianProcessOracle: check_input_format\<close>

definition check_input_format :: "'d \<Rightarrow> bool" where
  "check_input_format dataset = True"

section \<open>Contracts of the libraries and example inputs\<close>

text \<open>
  The generator's contract: \<open>permutation a\<close> is a rearrangement of \<open>range(a)\<close>.  The
  contract of a dataset transform: the tensor it returns has as many rows as the one it
  was given.
\<close>

definition is_shuffle :: "(nat \<Rightarrow> nat list) \<Rightarrow> nat \<Rightarrow> bool" where
  "is_shuffle permutation a \<longleftrightarrow> mset (permutation a) = mset [0..<a]"

definition keeps_rows :: "(tensor \<Rightarrow> error + tensor) \<Rightarrow> bool" where
  "keeps_rows f \<longleftrightarrow> (\<forall>t t'. f t = Inr t' \<longrightarrow> shape0 t' = shape0 t)"

text \<open>One outcome of the generator: the range in reverse order.\<close>

definition reversed_range :: "nat \<Rightarrow> nat list" where
  "reversed_range n = rev [0..<n]"

text \<open>A continuous dataset of three designs with two features each, transforms enabled.\<close>

definition example_x :: tensor where
  "example_x = \<lparr>floating = True,
     rows = [[Scalar 1, Scalar 2], [Scalar 3, Scalar 4], [Scalar 5, Scalar 6]]\<rparr>"

definition example_y :: tensor where
  "example_y = \<lparr>floating = True, rows = [[Scalar 10], [Scalar 20], [Scalar 30]]\<rparr>"

definition example_dataset :: dataset where
  "example_dataset =
     \<lparr>is_discrete = False, num_classes = 0, disable_transform = False,
      data_x = (\<lambda>_. example_x), data_y = (\<lambda>_. example_y),
      to_integers = (\<lambda>_. Inl TypeError), normalize_x = Inr, normalize_y = Inr\<rparr>"

text \<open>
  A discrete dataset of two sequences of two tokens over two classes, stored as
  floating-point logits; \<open>to_integers\<close> takes the position of the largest logit, and
  \<open>normalize_x\<close> raises whenever it is called.
\<close>

fun argmax :: "real list \<Rightarrow> nat" where
  "argmax [] = 0"
| "argmax (v # vs) = (if list_all (\<lambda>w. w \<le> v) vs then 0 else Suc (argmax vs))"

definition argmax_to_integers :: "tensor \<Rightarrow> error + tensor" where
  "argmax_to_integers t =
     Inr \<lparr>floating = False,
          rows = map (map (\<lambda>a. Scalar (real (argmax (ravel a))))) (rows t)\<rparr>"

definition example_logits :: tensor where
  "example_logits = \<lparr>floating = True,
     rows = [[Nested [Scalar 0.9, Scalar 0.1], Nested [Scalar 0.2, Scalar 0.8]],
             [Nested [Scalar 0.3, Scalar 0.7], Nested [Scalar 0.6, Scalar 0.4]]]\<rparr>"

definition example_scores :: tensor where
  "example_scores = \<lparr>floating = True, rows = [[Scalar 10], [Scalar 20]]\<rparr>"

definition discrete_dataset :: dataset where
  "discrete_dataset =
     \<lparr>is_discrete = True, num_classes = 2, disable_transform = False,
      data_x = (\<lambda>_. example_logits), data_y = (\<lambda>_. example_scores),
      to_integers = argmax_to_integers, normalize_x = (\<lambda>_. Inl ValueError),
      normalize_y = Inr\<rparr>"

text \<open>
  A stand-in for the regressor's \<open>fit\<close>: like the library it refuses an empty training
  set with ValueError, and otherwise the fitted model is the regressor with the data it
  was fitted on.
\<close>

definition example_model_fit ::
  "unit regressor \<Rightarrow> tensor \<Rightarrow> real list \<Rightarrow> error + unit regressor \<times> tensor \<times> real list" where
  "example_model_fit model x y = (if rows x = [] then Inl ValueError else Inr (model, x, y))"

text \<open>A stand-in for a fitted model's \<open>predict\<close>, and one for pickle.\<close>

definition example_predict :: "real \<Rightarrow> real list \<Rightarrow> error + real list" where
  "example_predict slope x = Inr (map (\<lambda>v. slope * v) x)"

definition example_pkl_dump :: "nat \<Rightarrow> nat list" where
  "example_pkl_dump model = [model]"

definition example_pkl_load :: "nat list \<Rightarrow> error + nat" where
  "example_pkl_load file = (case file of [model] \<Rightarrow> Inr model | _ \<Rightarrow> Inl ValueError)"

section \<open>Basic facts\<close>

lemma and_then_Inr [simp]: "and_then (Inr v) f = f v"
  by (simp add: and_then_def)

lemma and_then_Inl [simp]: "and_then (Inl e) f = Inl e"
  by (simp add: and_then_def)

lemma and_then_eq_Inr:
  "and_then m f = Inr w \<longleftrightarrow> (\<exists>v. m = Inr v \<and> f v = Inr w)"
  by (cases m) simp_all

lemma for_each_eq_Inr:
  "for_each f as = Inr bs \<longleftrightarrow> map f as = map Inr bs"
proof (induction as arbitrary: bs)
  case Nil
  then show ?case by auto
next
  case (Cons a as)
  show ?case
  proof (cases bs)
    case Nil
    then show ?thesis by (simp add: and_then_eq_Inr)
  next
    case (Cons b bs')
    then show ?thesis by (auto simp: and_then_eq_Inr Cons.IH)
  qed
qed


lemma for_each_eq_Inl:
  "for_each f as = Inl e \<Longrightarrow> \<exists>a \<in> set as. f a = Inl e"
proof (induction as)
  case Nil
  then show ?case by simp
next
  case (Cons a as)
  then show ?case
    by (cases "f a"; cases "for_each f as") auto
qed

section \<open>Facts about the kernel\<close>


lemma symmetric_matrix_iff:
  "symmetric_matrix n m \<longleftrightarrow>
     length m = n \<and> (\<forall>r \<in> set m. length r = n) \<and>
     (\<forall>i < n. \<forall>j < n. m ! i ! j = m ! j ! i)"
  by (auto simp: symmetric_matrix_def list_all_iff)




lemma default_kernel_symmetric: "symmetric_matrix n (default_kernel n)"
  unfolding symmetric_matrix_iff
  by (auto simp add: default_kernel_def add_arrays_def scale_def eye_def ones_def set_zip)


lemma default_kernel_doubles_close:
  assumes "i < n" and "j < n"
  shows "\<bar>double_value (default_kernel_doubles n ! i ! j) - default_kernel n ! i ! j\<bar>
           < 1 / 2 ^ 57"
  using assms
  by (simp add: default_kernel_doubles_def default_kernel_def add_arrays_def scale_def
      eye_def ones_def double_value_def double_one_def double_tenth_def)

lemma default_kernel_doubles_3:
  "default_kernel_doubles 3 =
     [[double_one, double_tenth, double_tenth],
      [double_tenth, double_one, double_tenth],
      [double_tenth, double_tenth, double_one]]"
  by (simp add: default_kernel_doubles_def upt_rec numeral_3_eq_3)

section \<open>The default kernel matrix\<close>

text \<open>
  Claim C2, as the code has it.  For every alphabet size \<open>n\<close>, the matrix
  \<open>0.9 * np.eye(n) + 0.1 * np.ones((n, n))\<close> that \<open>fit\<close> builds for a discrete dataset
  given no kernel has \<open>n\<close> rows of \<open>n\<close> entries, every diagonal entry is \<open>1\<close> (the sum
  of \<open>0.9\<close> and \<open>0.1\<close>) and every off-diagonal entry is \<open>0.1\<close>.
\<close>

theorem default_kernel_entries:
  assumes "i < n" and "j < n"
  shows "length (default_kernel n) = n \<and> length (default_kernel n ! i) = n \<and>
         default_kernel n ! i ! j = (if i = j then 1 else 0.1)"
  using assms by (simp add: default_kernel_def add_arrays_def scale_def eye_def ones_def)

theorem default_kernel_entries_witness:
  "length (default_kernel 3) = 3 \<and> length (default_kernel 3 ! 1) = 3 \<and>
   default_kernel 3 ! 1 ! 1 = 1 \<and> default_kernel 3 ! 1 ! 2 = 0.1"
  using default_kernel_entries [of 1 3 1] default_kernel_entries [of 1 3 2] by simp

text \<open>
  The diagonal entry is not \<open>0.9\<close>: for the alphabet of one class the only entry of the
  default matrix is \<open>1\<close>.
\<close>

theorem default_kernel_diagonal_counterexample:
  "default_kernel 1 ! 0 ! 0 = 1 \<and> default_kernel 1 ! 0 ! 0 \<noteq> 0.9"
  by (simp add: default_kernel_def add_arrays_def scale_def eye_def ones_def)

section \<open>Symmetry of the Gram matrix\<close>





section \<open>The diagonal\<close>

text \<open>
  Claim C5.  For every kernel matrix, every batch \<open>X\<close> and every position \<open>k\<close> of \<open>X\<close>:
  when \<open>diag(X)\<close> returns, it has one entry per sequence and its entry \<open>k\<close> is what
  \<open>evaluate_kernel(X[k], X[k])\<close> returns; and \<open>diag(X)\<close> raises only an exception that
  \<open>evaluate_kernel(x, x)\<close> raises for a sequence \<open>x\<close> of \<open>X\<close>.
\<close>

theorem diag_entries:
  assumes "k < length X"
  shows "case diag array_sum kernel_matrix X of
           Inr d \<Rightarrow> length d = length X \<and>
                    evaluate_kernel array_sum kernel_matrix (X ! k) (X ! k) = Inr (d ! k)
         | Inl e \<Rightarrow> \<exists>x \<in> set X. evaluate_kernel array_sum kernel_matrix x x = Inl e"
proof (cases "diag array_sum kernel_matrix X")
  case (Inl e)
  then show ?thesis
    using for_each_eq_Inl [of "\<lambda>x. evaluate_kernel array_sum kernel_matrix x x" X e]
    by (simp add: diag_def)
next
  case (Inr d)
  then have m: "map (\<lambda>x. evaluate_kernel array_sum kernel_matrix x x) X = map Inr d"
    by (simp add: diag_def for_each_eq_Inr)
  then have len: "length d = length X"
    by (metis length_map)
  from m have "map (\<lambda>x. evaluate_kernel array_sum kernel_matrix x x) X ! k = map Inr d ! k"
    by simp
  with assms len
  have "evaluate_kernel array_sum kernel_matrix (X ! k) (X ! k) = Inr (d ! k)"
    by simp
  with Inr len show ?thesis by simp
qed

lemma diag_example:
  "diag double_sum (default_kernel_doubles 3) [[0], [0, - 1]]
     = Inr [double_one, (2476979795053773, - 50)]"
  unfolding default_kernel_doubles_3 by code_simp

theorem diag_entries_witness:
  "diag double_sum (default_kernel_doubles 3) [[0], [0, - 1]]
     = Inr [double_one, (2476979795053773, - 50)] \<and>
   evaluate_kernel double_sum (default_kernel_doubles 3) [0, - 1] [0, - 1]
     = Inr (2476979795053773, - 50)"
  using diag_entries [of 1 "[[0], [0, - 1]]" double_sum "default_kernel_doubles 3"]
  by (simp add: diag_example)

section \<open>Accepted datasets\<close>

text \<open>
  Claim C9.  \<open>check_input_format\<close> returns \<open>True\<close> for every dataset: the oracle puts no
  restriction of shape or type on the dataset.
\<close>

theorem check_input_format_accepts: "check_input_format dataset = True"
  by (simp add: check_input_format_def)

section \<open>Facts about fit\<close>

lemma fit_result:
  "fst (fit permutation model_fit dataset kernel_arg max_samples kw) =
     and_then (fit_inputs permutation (dataset\<lparr>disable_transform := True\<rparr>) max_samples)
       (\<lambda>(x, y). model_fit \<lparr>kernel = select_kernel dataset kernel_arg, kwargs = kw\<rparr> x y)"
  by (simp add: fit_def Let_def split: sum.splits)

lemma fit_state:
  "snd (fit permutation model_fit dataset kernel_arg max_samples kw) =
     (case fst (fit permutation model_fit dataset kernel_arg max_samples kw) of
        Inl e \<Rightarrow> dataset\<lparr>disable_transform := True\<rparr>
      | Inr fitted \<Rightarrow> dataset\<lparr>disable_transform := False\<rparr>)"
  by (simp add: fit_def Let_def split: sum.splits)

lemma fit_raise_state:
  "fst (fit permutation model_fit dataset kernel_arg max_samples kw) = Inl e \<Longrightarrow>
   snd (fit permutation model_fit dataset kernel_arg max_samples kw)
     = dataset\<lparr>disable_transform := True\<rparr>"
  by (simp add: fit_state)

lemma random_choice_returns:
  "0 \<le> max_samples \<Longrightarrow>
     random_choice permutation a (min (int a) max_samples)
       = Inr (take (nat (min (int a) max_samples)) (permutation a))"
  by (auto simp: random_choice_def)

lemma random_choice_Inr:
  assumes "random_choice permutation a n = Inr indices"
  shows "0 \<le> n \<and> n \<le> int a \<and> indices = take (nat n) (permutation a)"
  using assms by (auto simp: random_choice_def split: if_splits)

lemma shuffle_facts:
  assumes "is_shuffle permutation a"
  shows "length (permutation a) = a" "distinct (permutation a)"
        "set (permutation a) = {0..<a}"
proof -
  have m: "mset (permutation a) = mset [0..<a]"
    using assms by (simp add: is_shuffle_def)
  from m show "length (permutation a) = a"
    by (metis length_upt mset_eq_length minus_nat.diff_0)
  from m show "distinct (permutation a)"
    by (metis distinct_upt mset_eq_imp_distinct_iff)
  from m show "set (permutation a) = {0..<a}"
    by (metis mset_eq_setD set_upt)
qed

lemma random_choice_sample:
  assumes sh: "is_shuffle permutation a"
      and rc: "random_choice permutation a n = Inr indices"
  shows "int (length indices) = n \<and> distinct indices \<and> (\<forall>i \<in> set indices. i < a)"
proof -
  from random_choice_Inr [OF rc]
  have n: "0 \<le> n" "n \<le> int a" and idx: "indices = take (nat n) (permutation a)"
    by simp_all
  have "length indices = nat n"
    using n idx shuffle_facts(1) [OF sh] by simp
  moreover have "distinct indices"
    using idx shuffle_facts(2) [OF sh] by simp
  moreover have "set indices \<subseteq> {0..<a}"
    using idx shuffle_facts(3) [OF sh] by (metis set_take_subset)
  ultimately show ?thesis using n by auto
qed

lemma take_rows_shape:
  "take_rows t indices = Inr t' \<Longrightarrow> shape0 t' = length indices"
  by (auto simp: take_rows_def and_then_eq_Inr for_each_eq_Inr shape0_def
      dest: map_eq_imp_length_eq)

lemma prepare_x_shape:
  assumes "keeps_rows (to_integers dataset)" "keeps_rows (normalize_x dataset)"
      and "prepare_x dataset x = Inr x'"
  shows "shape0 x' = shape0 x"
  using assms
  by (auto simp: prepare_x_def and_then_eq_Inr keeps_rows_def split: if_splits)

lemma reshape_x_shape: "shape0 (reshape_x t) = shape0 t"
  by (simp add: reshape_x_def shape0_def)

lemma reshape_y_length: "reshape_y t = Inr yr \<Longrightarrow> length yr = shape0 t"
  by (auto simp: reshape_y_def shape0_def split: if_splits)

lemma fit_inputs_Inr:
  assumes "fit_inputs permutation dataset max_samples = Inr (xr, yr)"
  shows "\<exists>indices xs ys xp yn.
           random_choice permutation (shape0 (data_y dataset (disable_transform dataset)))
             (min (int (shape0 (data_y dataset (disable_transform dataset)))) max_samples)
              = Inr indices \<and>
           take_rows (data_x dataset (disable_transform dataset)) indices = Inr xs \<and>
           take_rows (data_y dataset (disable_transform dataset)) indices = Inr ys \<and>
           prepare_x dataset xs = Inr xp \<and>
           normalize_y dataset ys = Inr yn \<and>
           reshape_y yn = Inr yr \<and> xr = reshape_x xp"
  using assms unfolding fit_inputs_def Let_def and_then_eq_Inr by blast

lemma reversed_range_shuffle: "is_shuffle reversed_range a"
  by (simp add: is_shuffle_def reversed_range_def)

lemma reversed_range_3: "reversed_range (Suc (Suc (Suc 0))) = [2, 1, 0]"
  by (simp add: reversed_range_def upt_rec)

lemma reversed_range_2: "reversed_range (Suc (Suc 0)) = [1, 0]"
  by (simp add: reversed_range_def upt_rec)

lemma keeps_rows_Inr: "keeps_rows Inr"
  by (simp add: keeps_rows_def)

lemma keeps_rows_raise: "keeps_rows (\<lambda>_. Inl e)"
  by (simp add: keeps_rows_def)

lemma example_inputs_0:
  "fit_inputs reversed_range (example_dataset\<lparr>disable_transform := True\<rparr>) 0
     = Inr (\<lparr>floating = True, rows = []\<rparr>, [])"
  by (simp add: fit_inputs_def example_dataset_def example_x_def example_y_def shape0_def
      random_choice_def take_rows_def prepare_x_def reshape_x_def reshape_y_def)

lemma example_inputs_2:
  "fit_inputs reversed_range (example_dataset\<lparr>disable_transform := True\<rparr>) 2
     = Inr (\<lparr>floating = True, rows = [[Scalar 5, Scalar 6], [Scalar 3, Scalar 4]]\<rparr>,
            [30, 20])"
  by (simp add: fit_inputs_def example_dataset_def example_x_def example_y_def shape0_def
      random_choice_def take_rows_def prepare_x_def reshape_x_def reshape_y_def
      reversed_range_3 axis_index_def wrapped_def ravel_row_def Let_def)

lemma example_choice_2: "random_choice reversed_range 3 (min 3 2) = Inr [2, 1]"
  by (simp add: random_choice_def reversed_range_def upt_rec numeral_3_eq_3)

lemma discrete_prepare:
  "prepare_x discrete_dataset example_logits
     = Inr \<lparr>floating = False, rows = [[Scalar 0, Scalar 1], [Scalar 1, Scalar 0]]\<rparr>"
  by (simp add: prepare_x_def discrete_dataset_def example_logits_def
      argmax_to_integers_def)

lemma discrete_inputs:
  "fit_inputs reversed_range (discrete_dataset\<lparr>disable_transform := True\<rparr>) 1000
     = Inr (\<lparr>floating = False, rows = [[Scalar 1, Scalar 0], [Scalar 0, Scalar 1]]\<rparr>,
            [20, 10])"
  by (simp add: fit_inputs_def discrete_dataset_def example_logits_def example_scores_def
      shape0_def random_choice_def take_rows_def prepare_x_def reshape_x_def reshape_y_def
      reversed_range_2 axis_index_def wrapped_def ravel_row_def Let_def
      argmax_to_integers_def)

section \<open>The transform flag when fit raises\<close>

text \<open>
  Claim C1, at an input where the code breaks it.  The dataset \<open>example_dataset\<close> has its
  transforms enabled (\<open>_disable_transform\<close> is \<open>False\<close>).  Called on it with
  \<open>max_samples = 0\<close>, \<open>fit\<close> draws no example, the regressor refuses the empty training
  set with ValueError, and \<open>fit\<close> leaves by that exception with \<open>_disable_transform\<close>
  still \<open>True\<close>: the flag is not what it was before the call.
\<close>

theorem fit_raising_keeps_transform_disabled:
  "disable_transform example_dataset = False \<and>
   fst (fit reversed_range example_model_fit example_dataset None 0 ()) = Inl ValueError \<and>
   disable_transform
     (snd (fit reversed_range example_model_fit example_dataset None 0 ())) = True"
proof -
  have r: "fst (fit reversed_range example_model_fit example_dataset None 0 ())
             = Inl ValueError"
    by (simp add: fit_result example_inputs_0 example_model_fit_def)
  show ?thesis
    by (simp add: fit_raise_state [OF r] r) (simp add: example_dataset_def)
qed

section \<open>The transform flag when fit returns\<close>

text \<open>
  Claim C10.  Whenever \<open>fit\<close> returns a model, the dataset it leaves has
  \<open>_disable_transform\<close> equal to \<open>False\<close>, whatever the flag was before the call, and
  nothing else of the dataset has changed.
\<close>

theorem fit_normal_return_enables_transform:
  assumes "fit permutation model_fit dataset kernel_arg max_samples kw = (Inr fitted, dataset')"
  shows "disable_transform dataset' = False \<and>
         dataset' = dataset\<lparr>disable_transform := False\<rparr>"
  using assms fit_state [of permutation model_fit dataset kernel_arg max_samples kw]
  by (cases "fit permutation model_fit dataset kernel_arg max_samples kw") auto

theorem fit_normal_return_enables_transform_witness:
  "disable_transform (example_dataset\<lparr>disable_transform := True\<rparr>) = True \<and>
   fst (fit reversed_range example_model_fit
          (example_dataset\<lparr>disable_transform := True\<rparr>) None 2 ())
     = Inr (\<lparr>kernel = RBF 1 (1 / 100000, 100000), kwargs = ()\<rparr>,
            \<lparr>floating = True, rows = [[Scalar 5, Scalar 6], [Scalar 3, Scalar 4]]\<rparr>,
            [30, 20]) \<and>
   disable_transform
     (snd (fit reversed_range example_model_fit
             (example_dataset\<lparr>disable_transform := True\<rparr>) None 2 ())) = False"
proof -
  let ?d = "example_dataset\<lparr>disable_transform := True\<rparr>"
  let ?m = "(\<lparr>kernel = RBF 1 (1 / 100000, 100000), kwargs = ()\<rparr>,
             \<lparr>floating = True, rows = [[Scalar 5, Scalar 6], [Scalar 3, Scalar 4]]\<rparr>,
             [30, 20 :: real])"
  have r: "fst (fit reversed_range example_model_fit ?d None 2 ()) = Inr ?m"
    using example_inputs_2
    by (simp add: fit_result example_model_fit_def select_kernel_def example_dataset_def)
  then have "fit reversed_range example_model_fit ?d None 2 ()
               = (Inr ?m, snd (fit reversed_range example_model_fit ?d None 2 ()))"
    by (simp add: prod_eq_iff)
  from fit_normal_return_enables_transform [OF this] r show ?thesis
    by simp
qed

section \<open>Sub-sampling\<close>

text \<open>
  Claim C3.  Let \<open>N\<close> be the number of examples of the dataset, let the generator return
  a rearrangement of \<open>range(N)\<close>, and let the dataset's transforms keep the number of
  rows.  Then: for every \<open>max_samples \<ge> 0\<close> the draw returns; whenever the draw
  returns, it has exactly \<open>min(N, max_samples)\<close> indices, pairwise distinct and below
  \<open>N\<close>; the two arrays prepared for the regressor have exactly \<open>min(N, max_samples)\<close>
  rows; and the regressor is fitted on those two arrays and on nothing else.
\<close>

theorem fit_sample_count:
  assumes N: "N = shape0 (data_y dataset True)"
      and sh: "is_shuffle permutation N"
      and keep: "keeps_rows (to_integers dataset)" "keeps_rows (normalize_x dataset)"
                "keeps_rows (normalize_y dataset)"
  shows "(0 \<le> max_samples \<longrightarrow>
            (\<exists>indices. random_choice permutation N (min (int N) max_samples) = Inr indices)) \<and>
         (\<forall>indices. random_choice permutation N (min (int N) max_samples) = Inr indices \<longrightarrow>
            int (length indices) = min (int N) max_samples \<and> distinct indices \<and>
            (\<forall>i \<in> set indices. i < N)) \<and>
         (\<forall>x y. fit_inputs permutation (dataset\<lparr>disable_transform := True\<rparr>) max_samples
                   = Inr (x, y) \<longrightarrow>
            int (shape0 x) = min (int N) max_samples \<and>
            int (length y) = min (int N) max_samples) \<and>
         fst (fit permutation model_fit dataset kernel_arg max_samples kw) =
           and_then (fit_inputs permutation (dataset\<lparr>disable_transform := True\<rparr>) max_samples)
             (\<lambda>(x, y). model_fit \<lparr>kernel = select_kernel dataset kernel_arg, kwargs = kw\<rparr> x y)"
proof (intro conjI allI impI)
  assume "0 \<le> max_samples"
  then show "\<exists>indices. random_choice permutation N (min (int N) max_samples) = Inr indices"
    by (simp add: random_choice_returns)
next
  fix indices
  assume rc: "random_choice permutation N (min (int N) max_samples) = Inr indices"
  from random_choice_sample [OF sh rc]
  show "int (length indices) = min (int N) max_samples" "distinct indices"
       "\<forall>i \<in> set indices. i < N"
    by simp_all
next
  fix x y
  let ?d = "dataset\<lparr>disable_transform := True\<rparr>"
  assume "fit_inputs permutation ?d max_samples = Inr (x, y)"
  from fit_inputs_Inr [OF this] N
  obtain indices xs ys xp yn where
    rc: "random_choice permutation N (min (int N) max_samples) = Inr indices" and
    xs: "take_rows (data_x ?d True) indices = Inr xs" and
    ys: "take_rows (data_y ?d True) indices = Inr ys" and
    xp: "prepare_x ?d xs = Inr xp" and
    yn: "normalize_y ?d ys = Inr yn" and
    yr: "reshape_y yn = Inr y" and
    xr: "x = reshape_x xp"
    by auto
  have len: "int (length indices) = min (int N) max_samples"
    using random_choice_sample [OF sh rc] by simp
  have "shape0 xp = shape0 xs"
    using prepare_x_shape [of ?d xs xp] keep xp by simp
  then show "int (shape0 x) = min (int N) max_samples"
    using xr take_rows_shape [OF xs] len by (simp add: reshape_x_shape)
  have "shape0 yn = shape0 ys"
    using keep(3) yn by (simp add: keeps_rows_def)
  then show "int (length y) = min (int N) max_samples"
    using reshape_y_length [OF yr] take_rows_shape [OF ys] len by simp
next
  show "fst (fit permutation model_fit dataset kernel_arg max_samples kw) =
           and_then (fit_inputs permutation (dataset\<lparr>disable_transform := True\<rparr>) max_samples)
             (\<lambda>(x, y). model_fit \<lparr>kernel = select_kernel dataset kernel_arg, kwargs = kw\<rparr> x y)"
    by (rule fit_result)
qed

theorem fit_sample_count_witness:
  "3 = shape0 (data_y example_dataset True) \<and> is_shuffle reversed_range 3 \<and>
   keeps_rows (to_integers example_dataset) \<and> keeps_rows (normalize_x example_dataset) \<and>
   keeps_rows (normalize_y example_dataset) \<and>
   random_choice reversed_range 3 (min 3 2) = Inr [2, 1] \<and>
   int (length [2, 1 :: nat]) = min 3 2 \<and> distinct [2, 1 :: nat] \<and>
   fit_inputs reversed_range (example_dataset\<lparr>disable_transform := True\<rparr>) 2
     = Inr (\<lparr>floating = True, rows = [[Scalar 5, Scalar 6], [Scalar 3, Scalar 4]]\<rparr>,
            [30, 20]) \<and>
   int (shape0 \<lparr>floating = True, rows = [[Scalar 5, Scalar 6], [Scalar 3, Scalar 4]]\<rparr>)
     = min 3 2"
proof -
  have N: "3 = shape0 (data_y example_dataset True)"
    by (simp add: example_dataset_def example_y_def shape0_def)
  have sh: "is_shuffle reversed_range 3"
    by (rule reversed_range_shuffle)
  have k1: "keeps_rows (to_integers example_dataset)"
    by (simp add: example_dataset_def keeps_rows_raise)
  have k2: "keeps_rows (normalize_x example_dataset)"
    by (simp add: example_dataset_def keeps_rows_Inr)
  have k3: "keeps_rows (normalize_y example_dataset)"
    by (simp add: example_dataset_def keeps_rows_Inr)
  note t = fit_sample_count [OF N sh k1 k2 k3, where max_samples = 2
      and model_fit = example_model_fit and kernel_arg = None and kw = "()"]
  from t have "int (length [2, 1 :: nat]) = min 3 2 \<and> distinct [2, 1 :: nat]"
    using example_choice_2 by simp
  moreover from t
  have "int (shape0 \<lparr>floating = True, rows = [[Scalar 5, Scalar 6], [Scalar 3, Scalar 4]]\<rparr>)
          = min 3 2"
    using example_inputs_2 by simp
  ultimately show ?thesis
    using N sh k1 k2 k3 example_choice_2 example_inputs_2 by simp
qed

section \<open>Conversion to class indices and input normalisation\<close>

text \<open>
  Claim C8.  The tensor \<open>x\<close> is the sub-sampled design tensor.  For a discrete dataset
  and a floating-point \<open>x\<close> that \<open>to_integers\<close> converts to a tensor \<open>xi\<close> of integer
  dtype, the prepared designs are \<open>xi\<close> whatever \<open>normalize_x\<close> is, so \<open>normalize_x\<close> is not
  applied; were \<open>xi\<close> of floating dtype, \<open>normalize_x\<close> would be applied to it; an
  exception of \<open>to_integers\<close> leaves \<open>fit\<close>.  For a dataset that is not discrete and a
  floating-point \<open>x\<close> the prepared designs are \<open>normalize_x(x)\<close> and \<open>to_integers\<close> is not
  called.  A tensor that is not floating-point is left as it is.  \<open>fit\<close> passes the
  flattened prepared tensor of the sub-sampled designs, and nothing else, to the
  regressor's \<open>fit\<close>, where the kernel is evaluated: what \<open>fit\<close> returns or raises is what
  the regressor returns or raises on it, and for a discrete dataset with floating-point
  designs whose conversion has integer dtype the regressor is fitted on the flattened
  class indices.
\<close>

theorem prepare_x_branches:
  "(is_discrete dataset \<and> floating x \<and> to_integers dataset x = Inr xi \<and> \<not> floating xi \<longrightarrow>
      (\<forall>f. prepare_x (dataset\<lparr>normalize_x := f\<rparr>) x = Inr xi)) \<and>
   (is_discrete dataset \<and> floating x \<and> to_integers dataset x = Inr xi \<and> floating xi \<longrightarrow>
      prepare_x dataset x = normalize_x dataset xi) \<and>
   (is_discrete dataset \<and> floating x \<and> to_integers dataset x = Inl e \<longrightarrow>
      prepare_x dataset x = Inl e) \<and>
   (\<not> is_discrete dataset \<and> floating x \<longrightarrow>
      (\<forall>f. prepare_x (dataset\<lparr>to_integers := f\<rparr>) x = normalize_x dataset x)) \<and>
   (\<not> floating x \<longrightarrow>
      (\<forall>f g. prepare_x (dataset\<lparr>to_integers := f, normalize_x := g\<rparr>) x = Inr x)) \<and>
   (\<forall>xr yr. fit_inputs permutation (dataset\<lparr>disable_transform := True\<rparr>) max_samples
               = Inr (xr, yr) \<longrightarrow>
      (\<exists>indices xs xp. take_rows (data_x dataset True) indices = Inr xs \<and>
                        prepare_x dataset xs = Inr xp \<and> xr = reshape_x xp)) \<and>
   fst (fit permutation model_fit dataset kernel_arg max_samples kw) =
     and_then (fit_inputs permutation (dataset\<lparr>disable_transform := True\<rparr>) max_samples)
       (\<lambda>(x, y). model_fit \<lparr>kernel = select_kernel dataset kernel_arg, kwargs = kw\<rparr> x y) \<and>
   (\<forall>indices xs ys xi yn yr.
      random_choice permutation (shape0 (data_y dataset True))
        (min (int (shape0 (data_y dataset True))) max_samples) = Inr indices \<and>
      take_rows (data_x dataset True) indices = Inr xs \<and>
      take_rows (data_y dataset True) indices = Inr ys \<and>
      is_discrete dataset \<and> floating xs \<and>
      to_integers dataset xs = Inr xi \<and> \<not> floating xi \<and>
      normalize_y dataset ys = Inr yn \<and> reshape_y yn = Inr yr \<longrightarrow>
      fst (fit permutation model_fit dataset kernel_arg max_samples kw) =
        model_fit \<lparr>kernel = select_kernel dataset kernel_arg, kwargs = kw\<rparr>
          (reshape_x xi) yr)"
proof -
  let ?d = "dataset\<lparr>disable_transform := True\<rparr>"
  have same: "prepare_x ?d xs = prepare_x dataset xs" for xs
    by (simp add: prepare_x_def cong: if_cong)
  have inputs: "\<exists>indices xs xp. take_rows (data_x dataset True) indices = Inr xs \<and>
                        prepare_x dataset xs = Inr xp \<and> xr = reshape_x xp"
    if "fit_inputs permutation ?d max_samples = Inr (xr, yr)"
    for xr yr
  proof -
    from fit_inputs_Inr [OF that] obtain indices xs xp where
      "take_rows (data_x dataset True) indices = Inr xs"
      "prepare_x ?d xs = Inr xp" "xr = reshape_x xp"
      by auto
    then show ?thesis using same by auto
  qed
  have regressor: "fst (fit permutation model_fit dataset kernel_arg max_samples kw) =
        model_fit \<lparr>kernel = select_kernel dataset kernel_arg, kwargs = kw\<rparr>
          (reshape_x xi) yr"
    if "random_choice permutation (shape0 (data_y dataset True))
          (min (int (shape0 (data_y dataset True))) max_samples) = Inr indices"
       "take_rows (data_x dataset True) indices = Inr xs"
       "take_rows (data_y dataset True) indices = Inr ys"
       "is_discrete dataset" "floating xs"
       "to_integers dataset xs = Inr xi" "\<not> floating xi"
       "normalize_y dataset ys = Inr yn" "reshape_y yn = Inr yr"
    for indices xs ys xi yn yr
  proof -
    have "prepare_x ?d xs = Inr xi"
      using that by (simp add: prepare_x_def)
    then have "fit_inputs permutation ?d max_samples = Inr (reshape_x xi, yr)"
      using that by (simp add: fit_inputs_def)
    then show ?thesis
      by (simp add: fit_result)
  qed
  have "fst (fit permutation model_fit dataset kernel_arg max_samples kw) =
     and_then (fit_inputs permutation ?d max_samples)
       (\<lambda>(x, y). model_fit \<lparr>kernel = select_kernel dataset kernel_arg, kwargs = kw\<rparr> x y)"
    by (rule fit_result)
  moreover
  have "\<forall>xr yr. fit_inputs permutation ?d max_samples = Inr (xr, yr) \<longrightarrow>
      (\<exists>indices xs xp. take_rows (data_x dataset True) indices = Inr xs \<and>
                        prepare_x dataset xs = Inr xp \<and> xr = reshape_x xp)"
    using inputs by blast
  moreover
  have "\<forall>indices xs ys xi yn yr.
      random_choice permutation (shape0 (data_y dataset True))
        (min (int (shape0 (data_y dataset True))) max_samples) = Inr indices \<and>
      take_rows (data_x dataset True) indices = Inr xs \<and>
      take_rows (data_y dataset True) indices = Inr ys \<and>
      is_discrete dataset \<and> floating xs \<and>
      to_integers dataset xs = Inr xi \<and> \<not> floating xi \<and>
      normalize_y dataset ys = Inr yn \<and> reshape_y yn = Inr yr \<longrightarrow>
      fst (fit permutation model_fit dataset kernel_arg max_samples kw) =
        model_fit \<lparr>kernel = select_kernel dataset kernel_arg, kwargs = kw\<rparr>
          (reshape_x xi) yr"
    using regressor by blast
  moreover
  have "(is_discrete dataset \<and> floating x \<and> to_integers dataset x = Inr xi \<and> \<not> floating xi \<longrightarrow>
      (\<forall>f. prepare_x (dataset\<lparr>normalize_x := f\<rparr>) x = Inr xi)) \<and>
   (is_discrete dataset \<and> floating x \<and> to_integers dataset x = Inr xi \<and> floating xi \<longrightarrow>
      prepare_x dataset x = normalize_x dataset xi) \<and>
   (is_discrete dataset \<and> floating x \<and> to_integers dataset x = Inl e \<longrightarrow>
      prepare_x dataset x = Inl e) \<and>
   (\<not> is_discrete dataset \<and> floating x \<longrightarrow>
      (\<forall>f. prepare_x (dataset\<lparr>to_integers := f\<rparr>) x = normalize_x dataset x)) \<and>
   (\<not> floating x \<longrightarrow>
      (\<forall>f g. prepare_x (dataset\<lparr>to_integers := f, normalize_x := g\<rparr>) x = Inr x))"
    by (simp add: prepare_x_def)
  ultimately show ?thesis
    by (intro conjI) blast+
qed

lemma discrete_kernel:
  "select_kernel discrete_dataset None = DiscreteSequenceKernel (Array (default_kernel 2))"
  by (simp add: select_kernel_def discrete_dataset_def)

lemma discrete_fit:
  "fst (fit reversed_range example_model_fit discrete_dataset None 1000 ())
     = Inr (\<lparr>kernel = DiscreteSequenceKernel (Array (default_kernel 2)), kwargs = ()\<rparr>,
            \<lparr>floating = False, rows = [[Scalar 1, Scalar 0], [Scalar 0, Scalar 1]]\<rparr>,
            [20, 10])"
  by (simp add: fit_result discrete_inputs discrete_kernel example_model_fit_def)

theorem prepare_x_branches_witness:
  "is_discrete discrete_dataset \<and> floating example_logits \<and>
   to_integers discrete_dataset example_logits
     = Inr \<lparr>floating = False, rows = [[Scalar 0, Scalar 1], [Scalar 1, Scalar 0]]\<rparr> \<and>
   normalize_x discrete_dataset
       \<lparr>floating = False, rows = [[Scalar 0, Scalar 1], [Scalar 1, Scalar 0]]\<rparr>
     = Inl ValueError \<and>
   prepare_x discrete_dataset example_logits
     = Inr \<lparr>floating = False, rows = [[Scalar 0, Scalar 1], [Scalar 1, Scalar 0]]\<rparr> \<and>
   is_discrete example_dataset = False \<and> floating example_x \<and>
   prepare_x example_dataset example_x = normalize_x example_dataset example_x \<and>
   fit_inputs reversed_range (discrete_dataset\<lparr>disable_transform := True\<rparr>) 1000
     = Inr (\<lparr>floating = False, rows = [[Scalar 1, Scalar 0], [Scalar 0, Scalar 1]]\<rparr>,
            [20, 10]) \<and>
   fst (fit reversed_range example_model_fit discrete_dataset None 1000 ())
     = example_model_fit
         \<lparr>kernel = DiscreteSequenceKernel (Array (default_kernel 2)), kwargs = ()\<rparr>
         \<lparr>floating = False, rows = [[Scalar 1, Scalar 0], [Scalar 0, Scalar 1]]\<rparr>
         [20, 10] \<and>
   fst (fit reversed_range example_model_fit discrete_dataset None 1000 ())
     = Inr (\<lparr>kernel = DiscreteSequenceKernel (Array (default_kernel 2)), kwargs = ()\<rparr>,
            \<lparr>floating = False, rows = [[Scalar 1, Scalar 0], [Scalar 0, Scalar 1]]\<rparr>,
            [20, 10])"
proof -
  let ?xi = "\<lparr>floating = False, rows = [[Scalar 0, Scalar 1], [Scalar 1, Scalar 0]]\<rparr>"
  let ?xr = "\<lparr>floating = False, rows = [[Scalar 1, Scalar 0], [Scalar 0, Scalar 1]]\<rparr>"
  have d: "is_discrete discrete_dataset" "floating example_logits"
    by (simp_all add: discrete_dataset_def example_logits_def)
  have ti: "to_integers discrete_dataset example_logits = Inr ?xi"
    by (simp add: discrete_dataset_def example_logits_def argmax_to_integers_def)
  have nx: "normalize_x discrete_dataset ?xi = Inl ValueError"
    by (simp add: discrete_dataset_def)
  have c: "is_discrete example_dataset = False" "floating example_x"
    by (simp_all add: example_dataset_def example_x_def)
  note t1 = prepare_x_branches [where dataset = discrete_dataset and x = example_logits
      and xi = ?xi and e = ValueError and permutation = reversed_range
      and max_samples = 1000 and model_fit = example_model_fit and kernel_arg = None
      and kw = "()"]
  from t1 d ti
  have "\<forall>f. prepare_x (discrete_dataset\<lparr>normalize_x := f\<rparr>) example_logits = Inr ?xi"
    by simp
  then have "prepare_x (discrete_dataset\<lparr>normalize_x := normalize_x discrete_dataset\<rparr>)
               example_logits = Inr ?xi"
    by (rule spec)
  then have p: "prepare_x discrete_dataset example_logits = Inr ?xi"
    by simp
  from t1
  have "fst (fit reversed_range example_model_fit discrete_dataset None 1000 ()) =
          and_then (fit_inputs reversed_range (discrete_dataset\<lparr>disable_transform := True\<rparr>) 1000)
            (\<lambda>(x, y). example_model_fit
               \<lparr>kernel = select_kernel discrete_dataset None, kwargs = ()\<rparr> x y)"
    by blast
  then have f: "fst (fit reversed_range example_model_fit discrete_dataset None 1000 ())
             = example_model_fit
                 \<lparr>kernel = DiscreteSequenceKernel (Array (default_kernel 2)), kwargs = ()\<rparr>
                 ?xr [20, 10]"
    by (simp add: discrete_inputs discrete_kernel)
  from prepare_x_branches [where dataset = example_dataset and x = example_x
      and xi = ?xi and e = ValueError and permutation = reversed_range and max_samples = 2
      and model_fit = example_model_fit and kernel_arg = None and kw = "()"]
    c
  have "\<forall>f. prepare_x (example_dataset\<lparr>to_integers := f\<rparr>) example_x
              = normalize_x example_dataset example_x"
    by simp
  then have "prepare_x (example_dataset\<lparr>to_integers := to_integers example_dataset\<rparr>)
               example_x = normalize_x example_dataset example_x"
    by (rule spec)
  then have q: "prepare_x example_dataset example_x = normalize_x example_dataset example_x"
    by simp
  from d ti nx p c q discrete_inputs f discrete_fit show ?thesis
    by (intro conjI)
qed

section \<open>Shape of the scores\<close>

text \<open>
  Claim C7.  When the fitted model's \<open>predict\<close> returns one prediction for each of the
  \<open>batch_size\<close> designs of \<open>x\<close>, \<open>protected_score\<close> returns \<open>batch_size\<close> rows of exactly
  one score each, row \<open>i\<close> holding prediction \<open>i\<close>: a column vector of shape
  \<open>(batch_size, 1)\<close>.
\<close>

theorem protected_score_shape:
  assumes "predict model x = Inr p" and "length p = length x"
  shows "\<exists>s. protected_score predict model x = Inr s \<and> length s = length x \<and>
             list_all (\<lambda>r. length r = 1) s \<and> s = map (\<lambda>v. [v]) p"
  using assms by (simp add: protected_score_def list_all_iff)

theorem protected_score_shape_witness:
  "example_predict 2 [1, 2, 3] = Inr [2, 4, 6] \<and>
   length [2, 4, 6 :: real] = length [1, 2, 3 :: real] \<and>
   protected_score example_predict 2 [1, 2, 3] = Inr [[2], [4], [6]]"
proof -
  have p: "example_predict 2 [1, 2, 3] = Inr [2, 4, 6]"
    by (simp add: example_predict_def)
  have l: "length [2, 4, 6 :: real] = length [1, 2, 3 :: real]"
    by simp
  from protected_score_shape [of example_predict 2 "[1, 2, 3]" "[2, 4, 6]", OF p l]
  show ?thesis
    using p by auto
qed

section \<open>Saving and loading the model\<close>

text \<open>
  Claim C6.  For a model that pickle restores from its own dump, loading from the archive
  the model was saved into returns that model, so its predictions on any batch are those
  of the original.  Saving writes the entry \<open>gaussian_process.pkl\<close> and no other, and
  loading reads that entry and no other.
\<close>

theorem model_round_trip:
  assumes "pkl_load (pkl_dump model) = Inr model"
  shows "load_model_from_zip pkl_load (save_model_to_zip pkl_dump model zip_archive)
           = Inr model \<and>
         (\<exists>loaded. load_model_from_zip pkl_load (save_model_to_zip pkl_dump model zip_archive)
                      = Inr loaded \<and> predict loaded x = predict model x) \<and>
         save_model_to_zip pkl_dump model zip_archive
           = zip_archive(''gaussian_process.pkl'' \<mapsto> pkl_dump model) \<and>
         load_model_from_zip pkl_load zip_archive
           = (case zip_archive ''gaussian_process.pkl'' of
                None \<Rightarrow> Inl KeyError | Some file \<Rightarrow> pkl_load file)"
  using assms by (simp add: load_model_from_zip_def save_model_to_zip_def)

theorem model_round_trip_witness:
  "example_pkl_load (example_pkl_dump 3) = Inr 3 \<and>
   load_model_from_zip example_pkl_load (save_model_to_zip example_pkl_dump 3 Map.empty)
     = Inr 3 \<and>
   load_model_from_zip example_pkl_load Map.empty = Inl KeyError"
proof -
  have p: "example_pkl_load (example_pkl_dump 3) = Inr 3"
    by (simp add: example_pkl_load_def example_pkl_dump_def)
  note t = model_round_trip [where pkl_load = example_pkl_load
      and pkl_dump = example_pkl_dump and model = 3 and predict = "\<lambda>m v. m + v"
      and x = "1::nat" and zip_archive = Map.empty, OF p]
  from t have a: "load_model_from_zip example_pkl_load
                    (save_model_to_zip example_pkl_dump 3 Map.empty) = Inr 3"
    by (rule conjunct1)
  from t have "load_model_from_zip example_pkl_load Map.empty
                 = (case Map.empty ''gaussian_process.pkl'' of
                      None \<Rightarrow> Inl KeyError | Some file \<Rightarrow> example_pkl_load file)"
    by (elim conjE)
  then have b: "load_model_from_zip example_pkl_load Map.empty = Inl KeyError"
    by simp
  from p a b show ?thesis by (intro conjI)
qed

end
